theory Spec2Isabelle
  imports Complex_Main
begin

section \<open>Python values used by the dashboard\<close>

text \<open>
  The monitoring service of \<^verbatim>\<open>ssh_dashboard.py\<close> is embedded as pure functions of
  the state of the host (\<open>world\<close> below). A Python string is a \<^typ>\<open>string\<close>; a character
  stands for a code point below 256. A Python dictionary with string keys is an association
  list in insertion order, without repeated keys; the documents handed to \<^verbatim>\<open>json.dumps\<close>
  are values of \<open>json\<close>. A raised exception is a value \<open>Raised cls msg\<close>, where \<open>msg\<close> is what
  \<^verbatim>\<open>str(e)\<close> returns; a call that may raise returns a sum with the exception on the left.
\<close>

datatype exn = Raised (exn_class: string) (exn_str: string)

datatype json =
    JNull
  | JInt int
  | JFloat real
  | JStr string
  | JArr "json list"
  | JObj "(string \<times> json) list"

type_synonym dict = "(string \<times> json) list"

text \<open>\<^verbatim>\<open>d[k] = v\<close>: an existing key keeps its place, a new key goes last.\<close>

fun dict_set :: "string \<Rightarrow> json \<Rightarrow> dict \<Rightarrow> dict" where
  "dict_set k v [] = [(k, v)]"
| "dict_set k v ((k', v') # kvs) =
     (if k' = k then (k, v) # kvs else (k', v') # dict_set k v kvs)"

definition dict_get :: "dict \<Rightarrow> string \<Rightarrow> json option" where
  "dict_get d k = map_of d k"

definition dict_keys :: "dict \<Rightarrow> string list" where
  "dict_keys d = map fst d"

subsection \<open>String methods\<close>

definition newline :: char where
  "newline = CHR 0x0A"

definition startswith :: "string \<Rightarrow> string \<Rightarrow> bool" where
  "startswith s p = (take (length p) s = p)"

definition endswith :: "string \<Rightarrow> string \<Rightarrow> bool" where
  "endswith s suf = (length suf \<le> length s \<and> drop (length s - length suf) s = suf)"

text \<open>\<^verbatim>\<open>str.isspace\<close> on the code points below 256.\<close>

definition is_space :: "char \<Rightarrow> bool" where
  "is_space c = ((of_char c :: nat) \<in> {9, 10, 11, 12, 13, 28, 29, 30, 31, 32, 133, 160})"

definition strip :: "string \<Rightarrow> string" where
  "strip s = rev (dropWhile is_space (rev (dropWhile is_space s)))"

text \<open>\<^verbatim>\<open>s.split('\n')\<close>: the pieces between newlines, empty pieces kept; never empty.\<close>

fun split_nl :: "string \<Rightarrow> string list" where
  "split_nl [] = [[]]"
| "split_nl (c # cs) =
     (if c = newline then [] # split_nl cs
      else (case split_nl cs of [] \<Rightarrow> [[c]] | l # ls \<Rightarrow> (c # l) # ls))"

text \<open>
  \<^verbatim>\<open>f.readlines()\<close> on the text of a file as the text-mode stream delivers it (decoded,
  line ends translated to newline): every line keeps its newline.
\<close>

fun readlines :: "string \<Rightarrow> string list" where
  "readlines [] = []"
| "readlines (c # cs) =
     (if c = newline then [c] # readlines cs
      else (case readlines cs of [] \<Rightarrow> [[c]] | l # ls \<Rightarrow> (c # l) # ls))"

text \<open>\<^verbatim>\<open>str.lower\<close> on the code points below 256.\<close>

definition lower_char :: "char \<Rightarrow> char" where
  "lower_char c =
     (let n = (of_char c :: nat)
      in if (65 \<le> n \<and> n \<le> 90) \<or> (192 \<le> n \<and> n \<le> 222 \<and> n \<noteq> 215)
         then char_of (n + 32) else c)"

definition lower :: "string \<Rightarrow> string" where
  "lower s = map lower_char s"

text \<open>\<^verbatim>\<open>sub in s\<close>.\<close>

fun contains :: "string \<Rightarrow> string \<Rightarrow> bool" where
  "contains [] sub = (sub = [])"
| "contains (c # cs) sub = (startswith (c # cs) sub \<or> contains cs sub)"

text \<open>\<^verbatim>\<open>s.replace(old, new)\<close>: every occurrence, left to right, without overlap.\<close>

function str_replace :: "string \<Rightarrow> string \<Rightarrow> string \<Rightarrow> string" where
  "str_replace [] old new = (if old = [] then new else [])"
| "str_replace (c # cs) old new =
     (if old = [] then new @ c # str_replace cs old new
      else if startswith (c # cs) old
        then new @ str_replace (drop (length old) (c # cs)) old new
      else c # str_replace cs old new)"
  by pat_completeness auto
termination
  by (relation "measure (\<lambda>(s, old, new). length s)") auto

text \<open>\<^verbatim>\<open>os.path.join(a, b)\<close> of \<^verbatim>\<open>posixpath\<close>.\<close>

definition path_join :: "string \<Rightarrow> string \<Rightarrow> string" where
  "path_join a b =
     (if startswith b ''/'' then b
      else if a = [] \<or> endswith a ''/'' then a @ b
      else a @ ''/'' @ b)"

section \<open>The host\<close>

text \<open>
  What lies at a path: a regular file with what \<^verbatim>\<open>os.path.getmtime\<close> and reading it as
  text answer, a directory with its entries, or a directory that cannot be listed.
\<close>

datatype fsnode =
    File (mtime: "exn + real") (content: "exn + string")
  | Dir "(string \<times> fsnode) list"
  | NoAccess exn

record completed_process =
  returncode :: int
  stdout :: string

text \<open>
  The state of the host that one aggregation reads: the clock, the objects at the configured
  directories, the answers of the external tools (\<^verbatim>\<open>subprocess.run\<close> raises when the tool
  cannot be started), the load average, and the local-time rendering of a timestamp. One
  aggregation sees one state: the host does not change between two calls of the same
  aggregation.
\<close>

record world =
  now_isoformat :: string
  fs :: "string \<Rightarrow> fsnode option"
  run :: "string list \<Rightarrow> exn + completed_process"
  getloadavg :: "exn + real \<times> real \<times> real"
  fromtimestamp_isoformat :: "real \<Rightarrow> exn + string"

definition FLEXPORT_DIR :: string where
  "FLEXPORT_DIR = ''/Users/jfuginay/Documents/dev/Flexport''"

definition IOS_DIR :: string where
  "IOS_DIR = FLEXPORT_DIR @ ''/FlexPort iOS''"

definition ANDROID_DIR :: string where
  "ANDROID_DIR = FLEXPORT_DIR @ ''/FlexPort Android''"

definition LOGS_DIR :: string where
  "LOGS_DIR = FLEXPORT_DIR @ ''/terminal_logs''"

definition os_error :: "string \<Rightarrow> string \<Rightarrow> string \<Rightarrow> exn" where
  "os_error cls msg path = Raised cls (msg @ '': '' @ [CHR 0x27] @ path @ [CHR 0x27])"

definition os_path_exists :: "world \<Rightarrow> string \<Rightarrow> bool" where
  "os_path_exists w p = (fs w p \<noteq> None)"

definition os_listdir :: "world \<Rightarrow> string \<Rightarrow> exn + string list" where
  "os_listdir w p =
     (case fs w p of
        None \<Rightarrow> Inl (os_error ''FileNotFoundError'' ''[Errno 2] No such file or directory'' p)
      | Some (File m t) \<Rightarrow> Inl (os_error ''NotADirectoryError'' ''[Errno 20] Not a directory'' p)
      | Some (NoAccess e) \<Rightarrow> Inl e
      | Some (Dir es) \<Rightarrow> Inr (map fst es))"

text \<open>The object at \<^verbatim>\<open>os.path.join(dir, name)\<close>, for a name without a slash.\<close>

definition child :: "world \<Rightarrow> string \<Rightarrow> string \<Rightarrow> fsnode option" where
  "child w dir name = (case fs w dir of Some (Dir es) \<Rightarrow> map_of es name | _ \<Rightarrow> None)"

text \<open>\<^verbatim>\<open>with open(os.path.join(dir, name), 'r') as f: f.readlines()\<close>.\<close>

definition open_readlines :: "world \<Rightarrow> string \<Rightarrow> string \<Rightarrow> exn + string list" where
  "open_readlines w dir name =
     (case child w dir name of
        None \<Rightarrow> Inl (os_error ''FileNotFoundError'' ''[Errno 2] No such file or directory''
                      (path_join dir name))
      | Some (File m t) \<Rightarrow> map_sum id readlines t
      | Some _ \<Rightarrow> Inl (os_error ''IsADirectoryError'' ''[Errno 21] Is a directory''
                      (path_join dir name)))"

fun is_dir :: "fsnode \<Rightarrow> bool" where
  "is_dir (File m t) = False"
| "is_dir (Dir es) = True"
| "is_dir (NoAccess e) = True"

text \<open>
  The entries of a directory that are not directories, each with what
  \<^verbatim>\<open>os.path.getmtime\<close> answers for it.
\<close>

fun regular_files :: "(string \<times> fsnode) list \<Rightarrow> (string \<times> (exn + real)) list" where
  "regular_files [] = []"
| "regular_files ((n, File m t) # es) = (n, m) # regular_files es"
| "regular_files ((n, Dir cs) # es) = regular_files es"
| "regular_files ((n, NoAccess e) # es) = regular_files es"

text \<open>
  \<^verbatim>\<open>os.walk(top)\<close>, top down, errors of listing ignored: for every directory reached, its
  path, the names of its subdirectories and its other entries, then the same for each
  subdirectory in turn.
\<close>

fun walk_node :: "string \<Rightarrow> fsnode \<Rightarrow> (string \<times> string list \<times> (string \<times> (exn + real)) list) list"
  and walk_children :: "string \<Rightarrow> (string \<times> fsnode) list \<Rightarrow>
        (string \<times> string list \<times> (string \<times> (exn + real)) list) list" where
  "walk_node dirpath (File m t) = []"
| "walk_node dirpath (NoAccess e) = []"
| "walk_node dirpath (Dir es) =
     (dirpath, map fst (filter (\<lambda>(n, c). is_dir c) es), regular_files es)
       # walk_children dirpath es"
| "walk_children dirpath [] = []"
| "walk_children dirpath ((n, c) # es) =
     (if is_dir c then walk_node (path_join dirpath n) c else []) @ walk_children dirpath es"

definition os_walk :: "world \<Rightarrow> string \<Rightarrow> (string \<times> string list \<times> (string \<times> (exn + real)) list) list" where
  "os_walk w dirpath = (case fs w dirpath of None \<Rightarrow> [] | Some n \<Rightarrow> walk_node dirpath n)"

section \<open>Log Tailer\<close>

text \<open>The body of the loop of \<^verbatim>\<open>get_terminal_logs\<close> for one name of the listing.\<close>

definition tail_of :: "world \<Rightarrow> string \<Rightarrow> json" where
  "tail_of w log_file =
     (case open_readlines w LOGS_DIR log_file of
        Inr lines \<Rightarrow>
          JArr (map JStr (if length lines > 50 then drop (length lines - 50) lines else lines))
      | Inl e \<Rightarrow> JArr [JStr (''Error reading log: '' @ exn_str e)])"

fun tail_logs :: "world \<Rightarrow> string list \<Rightarrow> dict \<Rightarrow> dict" where
  "tail_logs w [] logs = logs"
| "tail_logs w (log_file # rest) logs =
     tail_logs w rest
       (if endswith log_file ''.log'' then dict_set log_file (tail_of w log_file) logs else logs)"

definition get_terminal_logs :: "world \<Rightarrow> exn + dict" where
  "get_terminal_logs w =
     (if os_path_exists w LOGS_DIR then
        (case os_listdir w LOGS_DIR of
           Inl e \<Rightarrow> Inl e
         | Inr names \<Rightarrow> Inr (tail_logs w names []))
      else Inr [])"

section \<open>Filesystem Prober\<close>

text \<open>
  The two loops of \<^verbatim>\<open>get_last_modified\<close>, threading \<^verbatim>\<open>(latest_time, latest_file)\<close>; an
  exception of \<^verbatim>\<open>os.path.getmtime\<close> leaves both loops.
\<close>

fun scan_files :: "string \<Rightarrow> string list \<Rightarrow> (string \<times> (exn + real)) list \<Rightarrow>
    real \<times> string option \<Rightarrow> exn + real \<times> string option" where
  "scan_files dirpath extensions [] latest = Inr latest"
| "scan_files dirpath extensions ((file, getmtime) # rest) (latest_time, latest_file) =
     (if list_ex (\<lambda>ext. endswith file ext) extensions then
        (case getmtime of
           Inl e \<Rightarrow> Inl e
         | Inr t \<Rightarrow>
             scan_files dirpath extensions rest
               (if t > latest_time then (t, Some (path_join dirpath file))
                else (latest_time, latest_file)))
      else scan_files dirpath extensions rest (latest_time, latest_file))"

fun scan_walk :: "string list \<Rightarrow> (string \<times> string list \<times> (string \<times> (exn + real)) list) list \<Rightarrow>
    real \<times> string option \<Rightarrow> exn + real \<times> string option" where
  "scan_walk extensions [] latest = Inr latest"
| "scan_walk extensions ((dirpath, dirs, files) # rest) latest =
     (case scan_files dirpath extensions files latest of
        Inl e \<Rightarrow> Inl e
      | Inr latest' \<Rightarrow> scan_walk extensions rest latest')"

definition get_last_modified :: "world \<Rightarrow> string \<Rightarrow> string list \<Rightarrow> json" where
  "get_last_modified w directory extensions =
     (case scan_walk extensions (os_walk w directory) (0, None) of
        Inl e \<Rightarrow> JNull
      | Inr (latest_time, latest_file) \<Rightarrow>
          (case latest_file of
             None \<Rightarrow> JNull
           | Some f \<Rightarrow>
               if f \<noteq> [] then
                 (case fromtimestamp_isoformat w latest_time of
                    Inl e \<Rightarrow> JNull
                  | Inr stamp \<Rightarrow>
                      JObj [(''file'', JStr (str_replace f directory [])), (''time'', JStr stamp)])
               else JNull))"

section \<open>Version-Control Prober\<close>

text \<open>\<^verbatim>\<open>len(out.strip().split('\n')) if out.strip() else 0\<close>.\<close>

definition count_changes :: "string \<Rightarrow> nat" where
  "count_changes out = (if strip out \<noteq> [] then length (split_nl (strip out)) else 0)"

definition no_git_repository :: json where
  "no_git_repository = JObj [(''status'', JStr ''No git repository'')]"

text \<open>
  The body of the \<^verbatim>\<open>try\<close> of \<^verbatim>\<open>get_git_info\<close>: the dictionary it returns, \<open>None\<close> when
  the marker is missing and control falls through, or the exception that leaves it.
\<close>

definition git_probe :: "world \<Rightarrow> string \<Rightarrow> exn + json option" where
  "git_probe w directory =
     (if child w directory ''.git'' \<noteq> None then
        (case run w [''git'', ''-C'', directory, ''branch'', ''--show-current''] of
           Inl e \<Rightarrow> Inl e
         | Inr r1 \<Rightarrow>
             let branch = (if returncode r1 = 0 then strip (stdout r1) else ''unknown'') in
             (case run w [''git'', ''-C'', directory, ''status'', ''--porcelain''] of
                Inl e \<Rightarrow> Inl e
              | Inr r2 \<Rightarrow>
                  let changes = count_changes (stdout r2) in
                  (case run w [''git'', ''-C'', directory, ''log'', ''-1'', ''--oneline''] of
                     Inl e \<Rightarrow> Inl e
                   | Inr r3 \<Rightarrow>
                       let last_commit =
                             (if returncode r3 = 0 then strip (stdout r3) else ''No commits'')
                       in Inr (Some (JObj [(''branch'', JStr branch),
                                           (''uncommitted_changes'', JInt (int changes)),
                                           (''last_commit'', JStr last_commit)])))))
      else Inr None)"

definition get_git_info :: "world \<Rightarrow> string \<Rightarrow> json" where
  "get_git_info w directory =
     (case git_probe w directory of
        Inr (Some info) \<Rightarrow> info
      | Inr None \<Rightarrow> no_git_repository
      | Inl e \<Rightarrow> no_git_repository)"

section \<open>Snapshot Aggregator\<close>

text \<open>
  Each \<^verbatim>\<open>try\<close> block of \<^verbatim>\<open>get_project_stats\<close> fills one section dictionary key by key.
  Its body returns the dictionary as filled, or the exception together with the dictionary
  as filled so far; the handler stores \<^verbatim>\<open>str(e)\<close> under \<^verbatim>\<open>"error"\<close> in that dictionary.
\<close>

definition ios_stats :: "world \<Rightarrow> dict \<Rightarrow> exn \<times> dict + dict" where
  "ios_stats w d =
     (case os_listdir w IOS_DIR of
        Inl e \<Rightarrow> Inl (e, d)
      | Inr names \<Rightarrow>
          let ios_swift_count = length (filter (\<lambda>f. endswith f ''.swift'') names);
              d1 = dict_set ''swift_files'' (JInt (int ios_swift_count)) d;
              d2 = dict_set ''last_modified'' (get_last_modified w IOS_DIR [''.swift'']) d1;
              d3 = dict_set ''git_status'' (get_git_info w IOS_DIR) d2
          in Inr d3)"

definition android_stats :: "world \<Rightarrow> dict \<Rightarrow> exn \<times> dict + dict" where
  "android_stats w d =
     (case os_listdir w ANDROID_DIR of
        Inl e \<Rightarrow> Inl (e, d)
      | Inr names \<Rightarrow>
          let android_kt_count = length (filter (\<lambda>f. endswith f ''.kt'') names) in
          (case os_listdir w ANDROID_DIR of
             Inl e \<Rightarrow> Inl (e, d)
           | Inr names' \<Rightarrow>
               let android_java_count = length (filter (\<lambda>f. endswith f ''.java'') names');
                   d1 = dict_set ''kotlin_files'' (JInt (int android_kt_count)) d;
                   d2 = dict_set ''java_files'' (JInt (int android_java_count)) d1;
                   d3 = dict_set ''last_modified''
                          (get_last_modified w ANDROID_DIR [''.kt'', ''.java'']) d2;
                   d4 = dict_set ''git_status'' (get_git_info w ANDROID_DIR) d3
               in Inr d4))"

definition system_stats :: "world \<Rightarrow> dict \<Rightarrow> exn \<times> dict + dict" where
  "system_stats w d =
     (case run w [''ps'', ''aux''] of
        Inl e \<Rightarrow> Inl (e, d)
      | Inr result \<Rightarrow>
          let claude_processes =
                filter (\<lambda>line. contains (lower line) ''claude'') (split_nl (stdout result));
              d1 = dict_set ''claude_processes'' (JInt (int (length claude_processes))) d
          in (case getloadavg w of
                Inl e \<Rightarrow> Inl (e, d1)
              | Inr (l1, l5, l15) \<Rightarrow>
                  Inr (dict_set ''load_avg'' (JArr [JFloat l1, JFloat l5, JFloat l15]) d1)))"

definition handle_error :: "exn \<times> dict + dict \<Rightarrow> dict" where
  "handle_error r =
     (case r of Inl (e, d) \<Rightarrow> dict_set ''error'' (JStr (exn_str e)) d | Inr d \<Rightarrow> d)"

definition get_project_stats :: "world \<Rightarrow> exn + dict" where
  "get_project_stats w =
     (case get_terminal_logs w of
        Inl e \<Rightarrow> Inl e
      | Inr logs \<Rightarrow>
          let stats = [(''timestamp'', JStr (now_isoformat w)),
                       (''ios'', JObj []),
                       (''android'', JObj []),
                       (''system'', JObj []),
                       (''terminal_logs'', JObj logs)];
              stats1 = dict_set ''ios'' (JObj (handle_error (ios_stats w []))) stats;
              stats2 = dict_set ''android'' (JObj (handle_error (android_stats w []))) stats1;
              stats3 = dict_set ''system'' (JObj (handle_error (system_stats w []))) stats2
          in Inr stats3)"

section \<open>HTTP Server\<close>

text \<open>
  What a handler writes: the dashboard page, a JSON document (the value given to
  \<^verbatim>\<open>json.dumps\<close>), or an error status. An exception that leaves a handler leaves
  \<open>do_GET\<close> and nothing is served.
\<close>

datatype response = Html_Page | Json_Body json | Send_Error nat

definition serve_stats :: "world \<Rightarrow> exn + response" where
  "serve_stats w = map_sum id (\<lambda>stats. Json_Body (JObj stats)) (get_project_stats w)"

definition serve_logs :: "exn + response" where
  "serve_logs = Inr (Json_Body (JObj [(''logs'', JStr ''Log functionality coming soon'')]))"

definition serve_terminal_logs :: "world \<Rightarrow> exn + response" where
  "serve_terminal_logs w =
     map_sum id (\<lambda>terminal_logs. Json_Body (JObj terminal_logs)) (get_terminal_logs w)"

definition do_GET :: "world \<Rightarrow> string \<Rightarrow> exn + response" where
  "do_GET w path =
     (if path = ''/'' then Inr Html_Page
      else if path = ''/api/stats'' then serve_stats w
      else if path = ''/api/logs'' then serve_logs
      else if path = ''/api/terminal'' then serve_terminal_logs w
      else Inr (Send_Error 404))"

section \<open>Reading the documents\<close>

text \<open>A failure marker: the one-key object \<^verbatim>\<open>{"error": str}\<close>.\<close>

definition is_error_note :: "json \<Rightarrow> bool" where
  "is_error_note j = (case j of JObj [(k, JStr msg)] \<Rightarrow> k = ''error'' | _ \<Rightarrow> False)"

definition without_timestamp :: "dict \<Rightarrow> dict" where
  "without_timestamp stats = filter (\<lambda>(k, v). k \<noteq> ''timestamp'') stats"

text \<open>
  The short status format of the version-control tool: one entry per line, each ended by a
  newline.
\<close>

definition porcelain :: "string list \<Rightarrow> string" where
  "porcelain entries = concat (map (\<lambda>l. l @ [newline]) entries)"

text \<open>
  The number of non-empty lines of a text, in the words of the specification; a line that
  holds nothing but whitespace counts as empty.
\<close>

definition blank :: "string \<Rightarrow> bool" where
  "blank l = list_all is_space l"

definition nonempty_line_count :: "string \<Rightarrow> nat" where
  "nonempty_line_count out = length (filter (\<lambda>l. \<not> blank l) (split_nl out))"

definition blank_line_count :: "string \<Rightarrow> nat" where
  "blank_line_count out = length (filter blank (split_nl out))"

definition json_field :: "json \<Rightarrow> string \<Rightarrow> json option" where
  "json_field j k = (case j of JObj d \<Rightarrow> dict_get d k | _ \<Rightarrow> None)"

section \<open>Concrete hosts\<close>

text \<open>
  A host on which none of the configured directories exists and only \<^verbatim>\<open>ps\<close> can be
  started; one line of its process listing mentions the worker.
\<close>

definition bare_host :: world where
  "bare_host =
     \<lparr> now_isoformat = ''2025-07-01T09:30:00.000000'',
       fs = (\<lambda>p. None),
       run = (\<lambda>args.
         if args = [''ps'', ''aux'']
         then Inr \<lparr> returncode = 0,
                    stdout = ''USER PID COMMAND\<newline>dev 411 /opt/Claude/bin/claude\<newline>dev 512 zsh\<newline>'' \<rparr>
         else Inl (Raised ''FileNotFoundError'' ''[Errno 2] No such file or directory'')),
       getloadavg = Inr (3 / 2, 5 / 4, 1),
       fromtimestamp_isoformat = (\<lambda>t. Inr ''2025-06-30T18:00:00'') \<rparr>"

text \<open>The log directory of the scenario: a log of five lines and an empty log.\<close>

definition scenario_logs :: "(string \<times> fsnode) list" where
  "scenario_logs =
     [(''build.log'', File (Inr 1700) (Inr ''one\<newline>two\<newline>three\<newline>four\<newline>five\<newline>'')),
      (''empty.log'', File (Inr 1800) (Inr [])),
      (''notes.txt'', File (Inr 1900) (Inr ''skipped\<newline>''))]"

definition logs_host :: world where
  "logs_host = bare_host \<lparr> fs := (\<lambda>p. if p = LOGS_DIR then Some (Dir scenario_logs) else None) \<rparr>"

text \<open>The project directory of the scenario: two sources at the top, the newest one below.\<close>

definition ios_tree :: fsnode where
  "ios_tree = Dir [(''a.swift'', File (Inr 100) (Inr [])),
                   (''b.swift'', File (Inr 200) (Inr [])),
                   (''sub'', Dir [(''c.swift'', File (Inr 300) (Inr []))])]"

definition ios_host :: world where
  "ios_host = bare_host \<lparr> fs := (\<lambda>p. if p = IOS_DIR then Some ios_tree else None) \<rparr>"

text \<open>The log path is a regular file; no project directory exists.\<close>

definition logs_blocked_host :: world where
  "logs_blocked_host = bare_host \<lparr> fs := (\<lambda>p.
     if p = LOGS_DIR then Some (File (Inr 1700) (Inr [])) else None) \<rparr>"

text \<open>A repository in the iOS directory on a host where the tool cannot be started.\<close>

definition git_missing_host :: world where
  "git_missing_host = bare_host \<lparr> fs := (\<lambda>p.
     if p = IOS_DIR then Some (Dir [(''.git'', Dir [])]) else None) \<rparr>"

text \<open>
  A repository in the iOS directory whose status query exits with 128 and prints nothing,
  while the branch and the last commit are answered.
\<close>

definition status_fails_host :: world where
  "status_fails_host = bare_host \<lparr>
     fs := (\<lambda>p. if p = IOS_DIR then Some (Dir [(''.git'', Dir [])]) else None),
     run := (\<lambda>args.
       if args = [''git'', ''-C'', IOS_DIR, ''branch'', ''--show-current'']
         then Inr \<lparr> returncode = 0, stdout = ''main\<newline>'' \<rparr>
       else if args = [''git'', ''-C'', IOS_DIR, ''status'', ''--porcelain'']
         then Inr \<lparr> returncode = 128, stdout = [] \<rparr>
       else if args = [''git'', ''-C'', IOS_DIR, ''log'', ''-1'', ''--oneline'']
         then Inr \<lparr> returncode = 0, stdout = ''4f2a9c1 Add harbor view\<newline>'' \<rparr>
       else Inl (Raised ''FileNotFoundError'' ''[Errno 2] No such file or directory'')) \<rparr>"

text \<open>The same repository with two pending entries.\<close>

definition dirty_host :: world where
  "dirty_host = status_fails_host \<lparr>
     run := (\<lambda>args.
       if args = [''git'', ''-C'', IOS_DIR, ''status'', ''--porcelain'']
         then Inr \<lparr> returncode = 0, stdout = '' M Harbor.swift\<newline>?? Dock.swift\<newline>'' \<rparr>
       else run status_fails_host args) \<rparr>"

text \<open>A host whose load average cannot be obtained.\<close>

definition no_loadavg_host :: world where
  "no_loadavg_host = bare_host \<lparr> getloadavg := Inl (Raised ''OSError'' ''Load averages are unobtainable'') \<rparr>"

text \<open>The bare host a moment later: only the clock has moved.\<close>

definition later_host :: world where
  "later_host = bare_host \<lparr> now_isoformat := ''2025-07-01T09:30:30.000000'' \<rparr>"

text \<open>The bare host under more load: only the load average differs.\<close>

definition busy_host :: world where
  "busy_host = bare_host \<lparr> getloadavg := Inr (2, 5 / 4, 1) \<rparr>"

section \<open>Dictionaries\<close>

lemma dict_get_dict_set:
  "dict_get (dict_set k v d) k' = (if k' = k then Some v else dict_get d k')"
  by (induction d) (auto simp: dict_get_def)

section \<open>Properties of the Log Tailer\<close>

lemma dict_get_tail_logs:
  "dict_get (tail_logs w names logs) k =
     (if k \<in> set names \<and> endswith k ''.log'' then Some (tail_of w k) else dict_get logs k)"
  by (induction names arbitrary: logs) (auto simp: dict_get_dict_set)

lemma tail_of_cases:
  "\<exists>lines. tail_of w f = JArr (map JStr lines) \<and> length lines \<le> 50 \<and>
     (\<forall>ls. open_readlines w LOGS_DIR f = Inr ls \<longrightarrow> lines = drop (length ls - 50) ls)"
proof (cases "open_readlines w LOGS_DIR f")
  case (Inl e)
  have "tail_of w f = JArr (map JStr [''Error reading log: '' @ exn_str e])"
    by (simp add: tail_of_def Inl)
  then show ?thesis
    using Inl by (intro exI [of _ "[''Error reading log: '' @ exn_str e]"]) simp
next
  case (Inr ls)
  then show ?thesis
    by (intro exI [of _ "drop (length ls - 50) ls"]) (simp add: tail_of_def)
qed

lemma stats_terminal_logs:
  "get_terminal_logs w = Inr logs \<Longrightarrow>
   \<exists>stats. get_project_stats w = Inr stats \<and> dict_get stats ''terminal_logs'' = Some (JObj logs)"
  by (simp add: get_project_stats_def Let_def dict_get_dict_set) (simp add: dict_get_def)

lemma stats_raises: "get_terminal_logs w = Inl e \<Longrightarrow> get_project_stats w = Inl e"
  by (simp add: get_project_stats_def)

lemma logs_host_listing: "fs logs_host LOGS_DIR = Some (Dir scenario_logs)"
  by (simp add: logs_host_def)

text \<open>
  Claim C2. When the log directory is listed, every name of the listing that ends in
  \<^verbatim>\<open>.log\<close> has an entry in the returned mapping, and the entry holds at most 50 lines. When
  the file can be read, the entry is exactly the final 50 lines of the file, all of them if
  the file has no more than 50; an empty file gives the empty sequence.
\<close>

theorem tail_keeps_last_fifty:
  assumes "fs w LOGS_DIR = Some (Dir es)"
    and "log_file \<in> fst ` set es"
    and "endswith log_file ''.log''"
  shows "\<exists>logs lines. get_terminal_logs w = Inr logs
      \<and> dict_get logs log_file = Some (JArr (map JStr lines))
      \<and> length lines \<le> 50
      \<and> (\<forall>m t. map_of es log_file = Some (File m (Inr t)) \<longrightarrow>
            lines = drop (length (readlines t) - 50) (readlines t)
            \<and> length lines = min 50 (length (readlines t))
            \<and> (length (readlines t) \<le> 50 \<longrightarrow> lines = readlines t)
            \<and> (t = [] \<longrightarrow> lines = []))"
proof -
  have g: "get_terminal_logs w = Inr (tail_logs w (map fst es) [])"
    using assms(1) by (simp add: get_terminal_logs_def os_path_exists_def os_listdir_def)
  have d: "dict_get (tail_logs w (map fst es) []) log_file = Some (tail_of w log_file)"
    using assms(2,3) by (simp add: dict_get_tail_logs)
  obtain lines where l: "tail_of w log_file = JArr (map JStr lines)" "length lines \<le> 50"
    "\<forall>ls. open_readlines w LOGS_DIR log_file = Inr ls \<longrightarrow> lines = drop (length ls - 50) ls"
    using tail_of_cases by blast
  have "lines = drop (length (readlines t) - 50) (readlines t)"
    if "map_of es log_file = Some (File m (Inr t))" for m t
    using that l(3) assms(1) by (simp add: open_readlines_def child_def)
  then show ?thesis using g d l(1,2) by auto
qed

theorem tail_keeps_last_fifty_witness:
  "endswith ''build.log'' ''.log'' \<and> endswith ''empty.log'' ''.log''
   \<and> (\<exists>logs. get_terminal_logs logs_host = Inr logs
        \<and> dict_get logs ''build.log'' =
            Some (JArr [JStr ''one\<newline>'', JStr ''two\<newline>'', JStr ''three\<newline>'', JStr ''four\<newline>'',
                        JStr ''five\<newline>''])
        \<and> dict_get logs ''empty.log'' = Some (JArr []))"
proof -
  have e: "endswith ''build.log'' ''.log''" "endswith ''empty.log'' ''.log''"
    by (simp_all add: endswith_def)
  have m: "''build.log'' \<in> fst ` set scenario_logs" "''empty.log'' \<in> fst ` set scenario_logs"
    by (simp_all add: scenario_logs_def)
  have f: "map_of scenario_logs ''build.log'' =
             Some (File (Inr 1700) (Inr ''one\<newline>two\<newline>three\<newline>four\<newline>five\<newline>''))"
    "map_of scenario_logs ''empty.log'' = Some (File (Inr 1800) (Inr []))"
    by (simp_all add: scenario_logs_def)
  have r: "readlines ''one\<newline>two\<newline>three\<newline>four\<newline>five\<newline>'' =
      [''one\<newline>'', ''two\<newline>'', ''three\<newline>'', ''four\<newline>'', ''five\<newline>'']"
    by (simp add: newline_def)
  from tail_keeps_last_fifty [OF logs_host_listing m(1) e(1)]
  obtain logs lines where b: "get_terminal_logs logs_host = Inr logs"
    "dict_get logs ''build.log'' = Some (JArr (map JStr lines))"
    and ball: "\<forall>m t. map_of scenario_logs ''build.log'' = Some (File m (Inr t)) \<longrightarrow>
            lines = drop (length (readlines t) - 50) (readlines t)
            \<and> length lines = min 50 (length (readlines t))
            \<and> (length (readlines t) \<le> 50 \<longrightarrow> lines = readlines t)
            \<and> (t = [] \<longrightarrow> lines = [])"
    by blast
  from ball f(1)
  have "lines = drop (length (readlines ''one\<newline>two\<newline>three\<newline>four\<newline>five\<newline>'') - 50)
                  (readlines ''one\<newline>two\<newline>three\<newline>four\<newline>five\<newline>'')"
    by blast
  then have l: "lines = [''one\<newline>'', ''two\<newline>'', ''three\<newline>'', ''four\<newline>'', ''five\<newline>'']"
    unfolding r by simp
  from tail_keeps_last_fifty [OF logs_host_listing m(2) e(2)]
  obtain logs' lines' where c: "get_terminal_logs logs_host = Inr logs'"
    "dict_get logs' ''empty.log'' = Some (JArr (map JStr lines'))"
    and call: "\<forall>m t. map_of scenario_logs ''empty.log'' = Some (File m (Inr t)) \<longrightarrow>
            lines' = drop (length (readlines t) - 50) (readlines t)
            \<and> length lines' = min 50 (length (readlines t))
            \<and> (length (readlines t) \<le> 50 \<longrightarrow> lines' = readlines t)
            \<and> (t = [] \<longrightarrow> lines' = [])"
    by blast
  from call f(2) have "lines' = []" by blast
  with b(1,2) c l e show ?thesis by simp
qed

text \<open>
  Claim C9. Over one state of the host, the document served at \<^verbatim>\<open>/api/terminal\<close> is the
  \<^verbatim>\<open>terminal_logs\<close> field of the document served at \<^verbatim>\<open>/api/stats\<close>; when listing the log
  directory raises, the same exception leaves both handlers.
\<close>

theorem terminal_route_is_stats_logs_field:
  "(case do_GET w ''/api/stats'' of
      Inl e \<Rightarrow> do_GET w ''/api/terminal'' = Inl e
    | Inr r \<Rightarrow> \<exists>stats logs. r = Json_Body (JObj stats)
         \<and> dict_get stats ''terminal_logs'' = Some logs
         \<and> do_GET w ''/api/terminal'' = Inr (Json_Body logs))"
proof (cases "get_terminal_logs w")
  case (Inl e)
  then show ?thesis
    by (simp add: do_GET_def serve_stats_def serve_terminal_logs_def stats_raises)
next
  case (Inr logs)
  from stats_terminal_logs [OF Inr] obtain stats where
    "get_project_stats w = Inr stats" "dict_get stats ''terminal_logs'' = Some (JObj logs)"
    by blast
  then show ?thesis
    by (simp add: do_GET_def serve_stats_def serve_terminal_logs_def Inr)
qed

text \<open>
  Claim C10. When nothing lies at the configured log directory, the Log Tailer returns the
  empty mapping: \<^verbatim>\<open>/api/terminal\<close> serves \<^verbatim>\<open>{}\<close>, the aggregation returns a snapshot, and
  its \<^verbatim>\<open>terminal_logs\<close> field is \<^verbatim>\<open>{}\<close>.
\<close>

theorem missing_log_directory_gives_empty_mapping:
  assumes "fs w LOGS_DIR = None"
  shows "get_terminal_logs w = Inr []
    \<and> do_GET w ''/api/terminal'' = Inr (Json_Body (JObj []))
    \<and> (\<exists>stats. get_project_stats w = Inr stats
          \<and> dict_get stats ''terminal_logs'' = Some (JObj []))"
proof -
  have l: "get_terminal_logs w = Inr []"
    using assms by (simp add: get_terminal_logs_def os_path_exists_def)
  moreover have "do_GET w ''/api/terminal'' = Inr (Json_Body (JObj []))"
    by (simp add: do_GET_def serve_terminal_logs_def l)
  ultimately show ?thesis using stats_terminal_logs [OF l] by simp
qed

theorem missing_log_directory_witness:
  "fs bare_host LOGS_DIR = None
   \<and> get_terminal_logs bare_host = Inr []
   \<and> do_GET bare_host ''/api/terminal'' = Inr (Json_Body (JObj []))"
  using missing_log_directory_gives_empty_mapping [of bare_host] by (simp add: bare_host_def)

section \<open>Properties of the Snapshot Aggregator: layout\<close>

lemma snapshot_layout:
  assumes "get_terminal_logs w = Inr logs"
  shows "get_project_stats w =
     Inr [(''timestamp'', JStr (now_isoformat w)),
          (''ios'', JObj (handle_error (ios_stats w []))),
          (''android'', JObj (handle_error (android_stats w []))),
          (''system'', JObj (handle_error (system_stats w []))),
          (''terminal_logs'', JObj logs)]"
  using assms by (simp add: get_project_stats_def Let_def)

lemma snapshot_inverse:
  assumes "get_project_stats w = Inr stats"
  shows "\<exists>logs. get_terminal_logs w = Inr logs"
  using assms by (cases "get_terminal_logs w") (simp_all add: get_project_stats_def)

lemma snapshot_ios:
  assumes "get_project_stats w = Inr stats"
  shows "dict_get stats ''ios'' = Some (JObj (handle_error (ios_stats w [])))"
proof -
  obtain logs where "get_terminal_logs w = Inr logs"
    using snapshot_inverse [OF assms] by blast
  from snapshot_layout [OF this] assms show ?thesis by (auto simp: dict_get_def)
qed

section \<open>Properties of the Filesystem Prober\<close>

lemma scenario_relative_path:
  "str_replace (path_join (path_join IOS_DIR ''sub'') ''c.swift'') IOS_DIR [] = ''/sub/c.swift''"
  by (simp add: IOS_DIR_def FLEXPORT_DIR_def path_join_def startswith_def endswith_def)

lemma three_entries_cases:
  assumes "set es = {a, b, c}" and "length es = 3" and "a \<noteq> b" "a \<noteq> c" "b \<noteq> c"
  shows "es = [a, b, c] \<or> es = [a, c, b] \<or> es = [b, a, c] \<or> es = [b, c, a]
       \<or> es = [c, a, b] \<or> es = [c, b, a]"
proof -
  obtain x y z where es: "es = [x, y, z]"
    using assms(2) by (auto simp: length_Suc_conv numeral_3_eq_3)
  have "x \<in> {a, b, c}" "y \<in> {a, b, c}" "z \<in> {a, b, c}"
    "a \<in> {x, y, z}" "b \<in> {x, y, z}" "c \<in> {x, y, z}"
    using assms(1) unfolding es by auto
  then show ?thesis using assms(3-5) unfolding es by auto
qed

lemma scenario_scan:
  assumes "ta < tc" "tb < tc" "0 < tc"
    and "es = [a, b, s] \<or> es = [a, s, b] \<or> es = [b, a, s] \<or> es = [b, s, a]
       \<or> es = [s, a, b] \<or> es = [s, b, a]"
    and "a = (''a.swift'', File (Inr ta) ca)" "b = (''b.swift'', File (Inr tb) cb)"
    and "s = (''sub'', Dir [(''c.swift'', File (Inr tc) cc)])"
  shows "scan_walk [''.swift''] (walk_node d (Dir es)) (0, None)
     = Inr (tc, Some (path_join (path_join d ''sub'') ''c.swift''))
    \<and> length (filter (\<lambda>f. endswith f ''.swift'') (map fst es)) = 2"
  using assms(4) unfolding assms(5-7)
  using assms(1-3) by (elim disjE) (simp_all add: endswith_def)

text \<open>
  Claim C3. The iOS directory holds exactly \<^verbatim>\<open>a.swift\<close>, \<^verbatim>\<open>b.swift\<close> and the directory
  \<^verbatim>\<open>sub\<close> with \<^verbatim>\<open>c.swift\<close>, listed in any order, and \<^verbatim>\<open>sub/c.swift\<close> carries the latest
  modification time (a time after the epoch, which local time can render). Then the iOS
  section counts 2 Swift files, the entries of the top level only, and its last-modified
  file is \<^verbatim>\<open>/sub/c.swift\<close>, found by the walk of the whole tree and named relative to the
  project directory; the section of a served snapshot is this one.
\<close>

theorem shallow_count_recursive_recency:
  assumes tree: "fs w IOS_DIR = Some (Dir es)"
    and entries: "set es = {(''a.swift'', File (Inr ta) ca), (''b.swift'', File (Inr tb) cb),
                           (''sub'', Dir [(''c.swift'', File (Inr tc) cc)])}"
      "length es = 3"
    and newest: "ta < tc" "tb < tc" "0 < tc"
    and stamp: "fromtimestamp_isoformat w tc = Inr stamp"
  shows "\<exists>ios. handle_error (ios_stats w []) = ios
      \<and> dict_get ios ''swift_files'' = Some (JInt 2)
      \<and> dict_get ios ''last_modified'' =
          Some (JObj [(''file'', JStr ''/sub/c.swift''), (''time'', JStr stamp)])
      \<and> (\<forall>stats. get_project_stats w = Inr stats \<longrightarrow>
            dict_get stats ''ios'' = Some (JObj ios))"
proof -
  have order: "es = [(''a.swift'', File (Inr ta) ca), (''b.swift'', File (Inr tb) cb),
                    (''sub'', Dir [(''c.swift'', File (Inr tc) cc)])]
     \<or> es = [(''a.swift'', File (Inr ta) ca), (''sub'', Dir [(''c.swift'', File (Inr tc) cc)]),
             (''b.swift'', File (Inr tb) cb)]
     \<or> es = [(''b.swift'', File (Inr tb) cb), (''a.swift'', File (Inr ta) ca),
             (''sub'', Dir [(''c.swift'', File (Inr tc) cc)])]
     \<or> es = [(''b.swift'', File (Inr tb) cb), (''sub'', Dir [(''c.swift'', File (Inr tc) cc)]),
             (''a.swift'', File (Inr ta) ca)]
     \<or> es = [(''sub'', Dir [(''c.swift'', File (Inr tc) cc)]), (''a.swift'', File (Inr ta) ca),
             (''b.swift'', File (Inr tb) cb)]
     \<or> es = [(''sub'', Dir [(''c.swift'', File (Inr tc) cc)]), (''b.swift'', File (Inr tb) cb),
             (''a.swift'', File (Inr ta) ca)]"
    by (rule three_entries_cases [OF entries]) simp_all
  note scan = scenario_scan [OF newest order refl refl refl, of IOS_DIR]
  have l: "os_listdir w IOS_DIR = Inr (map fst es)"
    using tree by (simp add: os_listdir_def)
  have k: "os_walk w IOS_DIR = walk_node IOS_DIR (Dir es)"
    using tree by (simp add: os_walk_def)
  have n: "path_join (path_join IOS_DIR ''sub'') ''c.swift'' \<noteq> []"
    by (simp add: path_join_def)
  have m: "get_last_modified w IOS_DIR [''.swift''] =
      JObj [(''file'', JStr ''/sub/c.swift''), (''time'', JStr stamp)]"
    unfolding get_last_modified_def k using scan n stamp by (simp add: scenario_relative_path)
  have "dict_get (handle_error (ios_stats w [])) ''swift_files'' = Some (JInt 2)"
    using scan by (simp add: ios_stats_def l Let_def handle_error_def dict_get_def)
  moreover have "dict_get (handle_error (ios_stats w [])) ''last_modified'' =
      Some (JObj [(''file'', JStr ''/sub/c.swift''), (''time'', JStr stamp)])"
    by (simp add: ios_stats_def l Let_def handle_error_def m dict_get_def)
  ultimately show ?thesis using snapshot_ios by blast
qed

theorem shallow_count_recursive_recency_witness:
  "fs ios_host IOS_DIR = Some ios_tree
   \<and> dict_get (handle_error (ios_stats ios_host [])) ''swift_files'' = Some (JInt 2)
   \<and> dict_get (handle_error (ios_stats ios_host [])) ''last_modified'' =
       Some (JObj [(''file'', JStr ''/sub/c.swift''), (''time'', JStr ''2025-06-30T18:00:00'')])"
proof -
  have t: "fs ios_host IOS_DIR =
      Some (Dir [(''a.swift'', File (Inr 100) (Inr [])), (''b.swift'', File (Inr 200) (Inr [])),
                 (''sub'', Dir [(''c.swift'', File (Inr 300) (Inr []))])])"
    by (simp add: ios_host_def ios_tree_def)
  have e: "set [(''a.swift'', File (Inr 100) (Inr [])), (''b.swift'', File (Inr 200) (Inr [])),
               (''sub'', Dir [(''c.swift'', File (Inr 300) (Inr []))])] =
      {(''a.swift'', File (Inr 100) (Inr [])), (''b.swift'', File (Inr 200) (Inr [])),
       (''sub'', Dir [(''c.swift'', File (Inr 300) (Inr []))])}"
    "length [(''a.swift'', File (Inr 100) (Inr [])), (''b.swift'', File (Inr 200) (Inr [])),
             (''sub'', Dir [(''c.swift'', File (Inr 300) (Inr []))])] = 3"
    by simp_all
  have s: "fromtimestamp_isoformat ios_host 300 = Inr ''2025-06-30T18:00:00''"
    by (simp add: ios_host_def bare_host_def)
  have "(100::real) < 300" "(200::real) < 300" "(0::real) < 300" by simp_all
  from shallow_count_recursive_recency [OF t e this s] t show ?thesis
    by (simp add: ios_tree_def)
qed

section \<open>Properties of the Version-Control Prober\<close>

lemma git_missing_probe:
  "git_probe git_missing_host IOS_DIR =
     Inl (Raised ''FileNotFoundError'' ''[Errno 2] No such file or directory'')"
  by (simp add: git_probe_def child_def git_missing_host_def bare_host_def)

lemma get_git_info_shape:
  "get_git_info w d = no_git_repository
   \<or> (\<exists>b n c. get_git_info w d =
         JObj [(''branch'', JStr b), (''uncommitted_changes'', JInt (int n)),
               (''last_commit'', JStr c)])"
  by (auto simp: get_git_info_def git_probe_def Let_def split: sum.splits option.splits if_splits)

lemma get_git_info_never_error_note: "\<not> is_error_note (get_git_info w d)"
  using get_git_info_shape [of w d]
  by (auto simp: is_error_note_def no_git_repository_def)

lemma git_info_fields:
  assumes "child w d ''.git'' \<noteq> None"
    and "run w [''git'', ''-C'', d, ''branch'', ''--show-current''] = Inr r1"
    and "run w [''git'', ''-C'', d, ''status'', ''--porcelain''] = Inr r2"
    and "run w [''git'', ''-C'', d, ''log'', ''-1'', ''--oneline''] = Inr r3"
  shows "get_git_info w d =
     JObj [(''branch'', JStr (if returncode r1 = 0 then strip (stdout r1) else ''unknown'')),
           (''uncommitted_changes'', JInt (int (count_changes (stdout r2)))),
           (''last_commit'',
            JStr (if returncode r3 = 0 then strip (stdout r3) else ''No commits''))]"
  using assms by (simp add: get_git_info_def git_probe_def Let_def)

text \<open>
  Claim C4, as stated, fails: on a host where the tool cannot be started, the probe of a
  directory that holds the marker raises inside \<^verbatim>\<open>get_git_info\<close>, the exception is
  swallowed, and the result is the "no repository" sentinel, which is not a failure marker.
\<close>

theorem tool_failure_gives_sentinel_not_error_note:
  "child git_missing_host IOS_DIR ''.git'' = Some (Dir [])
   \<and> git_probe git_missing_host IOS_DIR =
     Inl (Raised ''FileNotFoundError'' ''[Errno 2] No such file or directory'')
   \<and> get_git_info git_missing_host IOS_DIR = JObj [(''status'', JStr ''No git repository'')]
   \<and> \<not> is_error_note (get_git_info git_missing_host IOS_DIR)"
  by (simp add: get_git_info_def git_missing_probe no_git_repository_def is_error_note_def)
     (simp add: child_def git_missing_host_def)

text \<open>
  Claim C4, amended. Whenever one of the three calls of the tool raises, the result of the
  whole probe is exactly the "no repository" sentinel: never a failure marker, never a
  partial status.
\<close>

theorem vcs_failure_gives_sentinel:
  assumes "run w [''git'', ''-C'', d, ''branch'', ''--show-current''] = Inl e
     \<or> run w [''git'', ''-C'', d, ''status'', ''--porcelain''] = Inl e
     \<or> run w [''git'', ''-C'', d, ''log'', ''-1'', ''--oneline''] = Inl e"
  shows "get_git_info w d = no_git_repository \<and> \<not> is_error_note (get_git_info w d)"
proof -
  have "get_git_info w d = no_git_repository"
    using assms
    by (auto simp: get_git_info_def git_probe_def Let_def split: sum.splits option.splits)
  then show ?thesis using get_git_info_never_error_note [of w d] by simp
qed

theorem vcs_failure_gives_sentinel_witness:
  "run git_missing_host [''git'', ''-C'', IOS_DIR, ''branch'', ''--show-current''] =
     Inl (Raised ''FileNotFoundError'' ''[Errno 2] No such file or directory'')
   \<and> child git_missing_host IOS_DIR ''.git'' = Some (Dir [])
   \<and> get_git_info git_missing_host IOS_DIR = no_git_repository"
  using vcs_failure_gives_sentinel [of git_missing_host IOS_DIR
      "Raised ''FileNotFoundError'' ''[Errno 2] No such file or directory''"]
  by (simp add: git_missing_host_def bare_host_def child_def)

subsection \<open>Counting the lines of the status output\<close>

lemma split_nl_not_Nil: "split_nl s \<noteq> []"
  by (induction s) (auto split: list.splits)

lemma split_nl_snoc:
  "split_nl (s @ [c]) =
     (if c = newline then split_nl s @ [[]]
      else butlast (split_nl s) @ [last (split_nl s) @ [c]])"
proof (induction s)
  case Nil
  then show ?case by simp
next
  case (Cons a s)
  obtain l ls where s: "split_nl s = l # ls"
    using split_nl_not_Nil [of s] by (cases "split_nl s") auto
  show ?case
    using Cons s by (cases "split_nl (s @ [c])") (auto split: if_splits)
qed

lemma is_space_newline: "is_space newline"
  by (simp add: is_space_def newline_def)

lemma blank_simps: "blank [] = True" "blank (c # l) = (is_space c \<and> blank l)"
  "blank (l @ [c]) = (blank l \<and> is_space c)"
  by (auto simp: blank_def)

lemma lead_space:
  assumes "is_space c"
  shows "nonempty_line_count (c # s) = nonempty_line_count s
     \<and> blank_line_count s \<le> blank_line_count (c # s)"
proof -
  obtain l ls where s: "split_nl s = l # ls"
    using split_nl_not_Nil [of s] by (cases "split_nl s") auto
  show ?thesis
    using assms s by (simp add: nonempty_line_count_def blank_line_count_def blank_simps)
qed

lemma trail_space:
  assumes "is_space c"
  shows "nonempty_line_count (s @ [c]) = nonempty_line_count s
     \<and> blank_line_count s \<le> blank_line_count (s @ [c])"
proof -
  obtain ls l where s: "split_nl s = ls @ [l]"
    using split_nl_not_Nil [of s] by (cases "split_nl s" rule: rev_cases) auto
  show ?thesis
    using assms s
    by (simp add: nonempty_line_count_def blank_line_count_def split_nl_snoc blank_simps)
qed

lemma lstrip_lines:
  "nonempty_line_count (dropWhile is_space s) = nonempty_line_count s
   \<and> blank_line_count (dropWhile is_space s) \<le> blank_line_count s"
proof (induction s)
  case Nil
  then show ?case by simp
next
  case (Cons c s)
  then show ?case using lead_space [of c s] by auto
qed

lemma rstrip_lines:
  "nonempty_line_count (rev (dropWhile is_space (rev s))) = nonempty_line_count s
   \<and> blank_line_count (rev (dropWhile is_space (rev s))) \<le> blank_line_count s"
proof (induction s rule: rev_induct)
  case Nil
  then show ?case by simp
next
  case (snoc c s)
  then show ?case using trail_space [of c s] by auto
qed

lemma strip_lines:
  "nonempty_line_count (strip s) = nonempty_line_count s
   \<and> blank_line_count (strip s) \<le> blank_line_count s"
  using rstrip_lines [of "dropWhile is_space s"] lstrip_lines [of s] by (simp add: strip_def)

lemma lines_split: "length (split_nl s) = nonempty_line_count s + blank_line_count s"
  using sum_length_filter_compl [of blank "split_nl s"]
  by (simp add: nonempty_line_count_def blank_line_count_def)

text \<open>
  What the prober counts, for any output at all: the non-empty lines, and the blank lines
  that lie between the first and the last visible character.
\<close>

lemma count_changes_lines:
  "count_changes out =
     (if strip out = [] then 0 else nonempty_line_count out + blank_line_count (strip out))"
  using strip_lines [of out] lines_split [of "strip out"] by (simp add: count_changes_def)

lemma strip_all_space: "\<forall>x\<in>set s. is_space x \<Longrightarrow> strip s = []"
  by (auto simp: strip_def dest: set_dropWhileD)

lemma strip_snoc_space:
  assumes "is_space c"
  shows "strip (s @ [c]) = strip s"
proof (cases "\<forall>x\<in>set s. is_space x")
  case True
  then show ?thesis
    using assms strip_all_space [of s] strip_all_space [of "s @ [c]"] by simp
next
  case False
  then obtain x where "x \<in> set s" "\<not> is_space x" by blast
  then have "dropWhile is_space (s @ [c]) = dropWhile is_space s @ [c]"
    by (rule dropWhile_append1)
  then show ?thesis using assms by (simp add: strip_def)
qed

lemma blank_strip: "blank out \<Longrightarrow> strip out = []"
  using strip_all_space [of out] by (simp add: blank_def list_all_iff)

lemma blank_no_lines: "blank out \<Longrightarrow> nonempty_line_count out = 0"
  using strip_lines [of out] by (simp add: blank_strip nonempty_line_count_def blank_simps)

lemma split_nl_line:
  "newline \<notin> set l \<Longrightarrow> split_nl (l @ newline # s) = l # split_nl s"
  by (induction l) auto

lemma split_nl_porcelain:
  "\<forall>l\<in>set entries. newline \<notin> set l \<Longrightarrow> split_nl (porcelain entries) = entries @ [[]]"
  by (induction entries) (simp_all add: porcelain_def split_nl_line)

lemma nonempty_lines_porcelain:
  assumes "\<forall>l\<in>set entries. newline \<notin> set l \<and> \<not> blank l"
  shows "nonempty_line_count (porcelain entries) = length entries"
proof -
  have nl: "\<forall>l\<in>set entries. newline \<notin> set l" using assms by blast
  show ?thesis
    using assms by (simp add: nonempty_line_count_def split_nl_porcelain [OF nl] blank_simps)
qed

lemma count_changes_porcelain:
  assumes "\<forall>l\<in>set entries. newline \<notin> set l \<and> \<not> blank l"
  shows "count_changes (porcelain entries) = nonempty_line_count (porcelain entries)"
proof (cases entries rule: rev_cases)
  case Nil
  then show ?thesis
    by (simp add: porcelain_def count_changes_def strip_def nonempty_line_count_def blank_simps)
next
  case (snoc es e)
  define body where "body = porcelain es @ e"
  have out: "porcelain entries = body @ [newline]"
    by (simp add: snoc porcelain_def body_def)
  have nl: "\<forall>l\<in>set entries. newline \<notin> set l" using assms by blast
  have "split_nl body @ [[]] = entries @ [[]]"
    using split_nl_porcelain [OF nl] by (simp add: out split_nl_snoc)
  then have body: "split_nl body = entries" by simp
  have nbl: "filter blank entries = []" using assms by (simp add: filter_empty_conv)
  have "blank_line_count (strip (porcelain entries)) \<le> blank_line_count body"
    using strip_lines [of body] by (simp add: out strip_snoc_space is_space_newline)
  then have b0: "blank_line_count (strip (porcelain entries)) = 0"
    by (simp add: blank_line_count_def body nbl)
  have n: "nonempty_line_count (porcelain entries) = length entries"
    using assms by (rule nonempty_lines_porcelain)
  have "nonempty_line_count (strip (porcelain entries)) \<noteq> 0"
    using strip_lines [of "porcelain entries"] n snoc by simp
  then have "strip (porcelain entries) \<noteq> []"
    by (auto simp: nonempty_line_count_def blank_simps)
  then show ?thesis by (simp add: count_changes_lines b0)
qed

lemma count_changes_blank: "blank out \<Longrightarrow> count_changes out = 0"
  by (simp add: count_changes_def blank_strip)

text \<open>
  Claim C5. The status query answers in the short format, one entry per line (no entry is
  blank or holds a newline), or prints nothing but whitespace. Then the
  \<^verbatim>\<open>uncommitted_changes\<close> field of the probe is exactly the number of non-empty lines of
  that output: the number of entries, and 0 for an output that is empty or all whitespace.
\<close>

theorem uncommitted_changes_counts_nonempty_lines:
  assumes repo: "child w d ''.git'' \<noteq> None"
    and r1: "run w [''git'', ''-C'', d, ''branch'', ''--show-current''] = Inr r1"
    and r2: "run w [''git'', ''-C'', d, ''status'', ''--porcelain''] = Inr r2"
    and r3: "run w [''git'', ''-C'', d, ''log'', ''-1'', ''--oneline''] = Inr r3"
    and shape: "blank (stdout r2)
       \<or> (\<exists>entries. stdout r2 = porcelain entries
             \<and> (\<forall>l\<in>set entries. newline \<notin> set l \<and> \<not> blank l))"
  shows "json_field (get_git_info w d) ''uncommitted_changes'' =
           Some (JInt (int (nonempty_line_count (stdout r2))))
     \<and> (blank (stdout r2) \<longrightarrow> nonempty_line_count (stdout r2) = 0)
     \<and> (\<forall>entries. stdout r2 = porcelain entries
            \<and> (\<forall>l\<in>set entries. newline \<notin> set l \<and> \<not> blank l)
          \<longrightarrow> nonempty_line_count (stdout r2) = length entries)"
proof -
  have "count_changes (stdout r2) = nonempty_line_count (stdout r2)"
    using shape count_changes_porcelain count_changes_blank [of "stdout r2"]
      blank_no_lines [of "stdout r2"]
    by auto
  then have "json_field (get_git_info w d) ''uncommitted_changes'' =
           Some (JInt (int (nonempty_line_count (stdout r2))))"
    by (simp add: git_info_fields [OF repo r1 r2 r3] json_field_def dict_get_def)
  then show ?thesis
    using blank_no_lines [of "stdout r2"] nonempty_lines_porcelain by auto
qed

lemma dirty_status:
  "run dirty_host [''git'', ''-C'', IOS_DIR, ''status'', ''--porcelain''] =
     Inr \<lparr> returncode = 0, stdout = porcelain ['' M Harbor.swift'', ''?? Dock.swift''] \<rparr>"
  by (simp add: dirty_host_def porcelain_def newline_def)

theorem uncommitted_changes_witness:
  "child dirty_host IOS_DIR ''.git'' \<noteq> None
   \<and> run dirty_host [''git'', ''-C'', IOS_DIR, ''status'', ''--porcelain''] =
       Inr \<lparr> returncode = 0, stdout = porcelain ['' M Harbor.swift'', ''?? Dock.swift''] \<rparr>
   \<and> json_field (get_git_info dirty_host IOS_DIR) ''uncommitted_changes'' = Some (JInt 2)"
proof -
  have repo: "child dirty_host IOS_DIR ''.git'' \<noteq> None"
    by (simp add: child_def dirty_host_def status_fails_host_def)
  have r1: "run dirty_host [''git'', ''-C'', IOS_DIR, ''branch'', ''--show-current''] =
      Inr \<lparr> returncode = 0, stdout = ''main\<newline>'' \<rparr>"
    by (simp add: dirty_host_def status_fails_host_def)
  have r3: "run dirty_host [''git'', ''-C'', IOS_DIR, ''log'', ''-1'', ''--oneline''] =
      Inr \<lparr> returncode = 0, stdout = ''4f2a9c1 Add harbor view\<newline>'' \<rparr>"
    by (simp add: dirty_host_def status_fails_host_def)
  have e: "\<forall>l\<in>set ['' M Harbor.swift'', ''?? Dock.swift'']. newline \<notin> set l \<and> \<not> blank l"
    by (simp add: newline_def blank_def is_space_def)
  have shape: "blank (stdout \<lparr> returncode = 0,
        stdout = porcelain ['' M Harbor.swift'', ''?? Dock.swift''] \<rparr>)
     \<or> (\<exists>entries. stdout \<lparr> returncode = 0,
            stdout = porcelain ['' M Harbor.swift'', ''?? Dock.swift''] \<rparr> = porcelain entries
          \<and> (\<forall>l\<in>set entries. newline \<notin> set l \<and> \<not> blank l))"
    by (rule disjI2, rule exI [of _ "['' M Harbor.swift'', ''?? Dock.swift'']"])
       (rule conjI, simp only: completed_process.simps, rule e)
  from uncommitted_changes_counts_nonempty_lines [OF repo r1 dirty_status r3 shape]
  have "json_field (get_git_info dirty_host IOS_DIR) ''uncommitted_changes'' =
      Some (JInt (int (nonempty_line_count (porcelain ['' M Harbor.swift'', ''?? Dock.swift'']))))"
    by simp
  then show ?thesis
    using repo dirty_status nonempty_lines_porcelain [OF e] by simp
qed

text \<open>
  Claim C6 at a failing status query. The branch and the last commit are answered and the
  status query exits with 128, printing nothing. The exit code of that query is never read:
  the field \<^verbatim>\<open>uncommitted_changes\<close> is 0, the value of a clean working tree, where the
  other two fields would have carried a placeholder.
\<close>

theorem failed_status_reported_as_clean:
  "run status_fails_host [''git'', ''-C'', IOS_DIR, ''status'', ''--porcelain''] =
     Inr \<lparr> returncode = 128, stdout = [] \<rparr>
   \<and> get_git_info status_fails_host IOS_DIR =
     JObj [(''branch'', JStr ''main''), (''uncommitted_changes'', JInt 0),
           (''last_commit'', JStr ''4f2a9c1 Add harbor view'')]"
  by (simp add: get_git_info_def git_probe_def child_def status_fails_host_def bare_host_def
      Let_def count_changes_def strip_def is_space_def)


section \<open>Properties of the Snapshot Aggregator\<close>

subsection \<open>What each section holds\<close>

lemma ios_section_shape:
  "dict_keys (handle_error (ios_stats w [])) = [''swift_files'', ''last_modified'', ''git_status'']
   \<or> (\<exists>msg. handle_error (ios_stats w []) = [(''error'', JStr msg)])"
  by (cases "os_listdir w IOS_DIR")
     (simp_all add: ios_stats_def handle_error_def dict_keys_def Let_def)

lemma android_section_shape:
  "dict_keys (handle_error (android_stats w [])) =
     [''kotlin_files'', ''java_files'', ''last_modified'', ''git_status'']
   \<or> (\<exists>msg. handle_error (android_stats w []) = [(''error'', JStr msg)])"
  by (cases "os_listdir w ANDROID_DIR")
     (simp_all add: android_stats_def handle_error_def dict_keys_def Let_def)

lemma system_section_shape:
  "dict_keys (handle_error (system_stats w [])) = [''claude_processes'', ''load_avg'']
   \<or> (\<exists>msg. handle_error (system_stats w []) = [(''error'', JStr msg)])
   \<or> (\<exists>n msg. handle_error (system_stats w []) =
         [(''claude_processes'', JInt n), (''error'', JStr msg)])"
  by (cases "run w [''ps'', ''aux'']"; cases "getloadavg w")
     (auto simp: system_stats_def handle_error_def dict_keys_def Let_def)

lemma no_loadavg_snapshot:
  "get_project_stats no_loadavg_host =
     Inr [(''timestamp'', JStr ''2025-07-01T09:30:00.000000''),
          (''ios'', JObj (handle_error (ios_stats no_loadavg_host []))),
          (''android'', JObj (handle_error (android_stats no_loadavg_host []))),
          (''system'', JObj (handle_error (system_stats no_loadavg_host []))),
          (''terminal_logs'', JObj [])]"
proof -
  have "get_terminal_logs no_loadavg_host = Inr []"
    by (simp add: get_terminal_logs_def os_path_exists_def no_loadavg_host_def bare_host_def)
  from snapshot_layout [OF this] show ?thesis
    by (simp add: no_loadavg_host_def bare_host_def)
qed

lemma ios_section_cases:
  "(case os_listdir w IOS_DIR of
      Inl e \<Rightarrow> handle_error (ios_stats w []) = [(''error'', JStr (exn_str e))]
    | Inr names \<Rightarrow>
        dict_keys (handle_error (ios_stats w [])) =
          [''swift_files'', ''last_modified'', ''git_status''])"
  by (cases "os_listdir w IOS_DIR")
     (simp_all add: ios_stats_def handle_error_def dict_keys_def Let_def)

lemma android_section_cases:
  "(case os_listdir w ANDROID_DIR of
      Inl e \<Rightarrow> handle_error (android_stats w []) = [(''error'', JStr (exn_str e))]
    | Inr names \<Rightarrow>
        dict_keys (handle_error (android_stats w [])) =
          [''kotlin_files'', ''java_files'', ''last_modified'', ''git_status''])"
  by (cases "os_listdir w ANDROID_DIR")
     (simp_all add: android_stats_def handle_error_def dict_keys_def Let_def)

lemma system_section_cases:
  "(case run w [''ps'', ''aux''] of
      Inl e \<Rightarrow> handle_error (system_stats w []) = [(''error'', JStr (exn_str e))]
    | Inr result \<Rightarrow>
        (case getloadavg w of
           Inl e \<Rightarrow>
             handle_error (system_stats w []) =
               [(''claude_processes'',
                 JInt (int (length (filter (\<lambda>line. contains (lower line) ''claude'')
                                      (split_nl (stdout result)))))),
                (''error'', JStr (exn_str e))]
         | Inr load \<Rightarrow>
             dict_keys (handle_error (system_stats w [])) = [''claude_processes'', ''load_avg'']))"
  by (cases "run w [''ps'', ''aux'']"; cases "getloadavg w")
     (auto simp: system_stats_def handle_error_def dict_keys_def Let_def)


lemma no_loadavg_calls:
  "os_listdir no_loadavg_host IOS_DIR =
     Inl (os_error ''FileNotFoundError'' ''[Errno 2] No such file or directory'' IOS_DIR)"
  "run no_loadavg_host [''ps'', ''aux''] =
     Inr \<lparr> returncode = 0,
           stdout = ''USER PID COMMAND\<newline>dev 411 /opt/Claude/bin/claude\<newline>dev 512 zsh\<newline>'' \<rparr>"
  "getloadavg no_loadavg_host = Inl (Raised ''OSError'' ''Load averages are unobtainable'')"
  by (simp_all add: no_loadavg_host_def bare_host_def os_listdir_def)

lemma no_loadavg_count:
  "length (filter (\<lambda>line. contains (lower line) ''claude'')
      (split_nl ''USER PID COMMAND\<newline>dev 411 /opt/Claude/bin/claude\<newline>dev 512 zsh\<newline>'')) = 1"
  by (simp add: newline_def lower_def lower_char_def startswith_def)


text \<open>
  Claim C8, as stated, fails: on a host that lists its processes but cannot give a load
  average, the \<^verbatim>\<open>system\<close> section of the served snapshot holds the process count and the
  error message side by side.
\<close>

theorem system_section_mixes_data_and_error:
  "map_sum id (\<lambda>stats. dict_get stats ''system'') (get_project_stats no_loadavg_host) =
     Inr (Some (JObj [(''claude_processes'', JInt 1),
                      (''error'', JStr ''Load averages are unobtainable'')]))"
  by (simp add: get_project_stats_def get_terminal_logs_def os_path_exists_def Let_def
      dict_get_def system_stats_def handle_error_def no_loadavg_host_def bare_host_def
      newline_def lower_def lower_char_def startswith_def)

text \<open>
  Claim C8, amended. In every snapshot the sections \<^verbatim>\<open>ios\<close> and \<^verbatim>\<open>android\<close> are each
  either fully populated or exactly the one-key object \<^verbatim>\<open>{"error": str}\<close>: exactly the
  error object, with the message of the exception, when listing the project directory
  raises, and fully populated when it returns. The section \<^verbatim>\<open>system\<close> is exactly
  \<^verbatim>\<open>{"error": str}\<close> when the process listing raises; it is the process count followed by
  the error message when the process listing returns and only the load-average query
  raises; and it is fully populated when both return.
\<close>

theorem section_shapes:
  assumes "get_project_stats w = Inr stats"
  shows "\<exists>ios android system.
      dict_get stats ''ios'' = Some (JObj ios)
    \<and> dict_get stats ''android'' = Some (JObj android)
    \<and> dict_get stats ''system'' = Some (JObj system)
    \<and> (dict_keys ios = [''swift_files'', ''last_modified'', ''git_status'']
        \<or> (\<exists>msg. ios = [(''error'', JStr msg)]))
    \<and> (dict_keys android = [''kotlin_files'', ''java_files'', ''last_modified'', ''git_status'']
        \<or> (\<exists>msg. android = [(''error'', JStr msg)]))
    \<and> (dict_keys system = [''claude_processes'', ''load_avg'']
        \<or> (\<exists>msg. system = [(''error'', JStr msg)])
        \<or> (\<exists>n msg. system = [(''claude_processes'', JInt n), (''error'', JStr msg)]))
    \<and> (case os_listdir w IOS_DIR of
          Inl e \<Rightarrow> ios = [(''error'', JStr (exn_str e))]
        | Inr names \<Rightarrow> dict_keys ios = [''swift_files'', ''last_modified'', ''git_status''])
    \<and> (case os_listdir w ANDROID_DIR of
          Inl e \<Rightarrow> android = [(''error'', JStr (exn_str e))]
        | Inr names \<Rightarrow>
            dict_keys android =
              [''kotlin_files'', ''java_files'', ''last_modified'', ''git_status''])
    \<and> (case run w [''ps'', ''aux''] of
          Inl e \<Rightarrow> system = [(''error'', JStr (exn_str e))]
        | Inr result \<Rightarrow>
            (case getloadavg w of
               Inl e \<Rightarrow>
                 system =
                   [(''claude_processes'',
                     JInt (int (length (filter (\<lambda>line. contains (lower line) ''claude'')
                                          (split_nl (stdout result)))))),
                    (''error'', JStr (exn_str e))]
             | Inr load \<Rightarrow> dict_keys system = [''claude_processes'', ''load_avg'']))"
proof -
  obtain logs where "get_terminal_logs w = Inr logs"
    using snapshot_inverse [OF assms] by blast
  from snapshot_layout [OF this] assms
  have s: "stats = [(''timestamp'', JStr (now_isoformat w)),
          (''ios'', JObj (handle_error (ios_stats w []))),
          (''android'', JObj (handle_error (android_stats w []))),
          (''system'', JObj (handle_error (system_stats w []))),
          (''terminal_logs'', JObj logs)]"
    by simp
  have g: "dict_get stats ''ios'' = Some (JObj (handle_error (ios_stats w [])))"
    "dict_get stats ''android'' = Some (JObj (handle_error (android_stats w [])))"
    "dict_get stats ''system'' = Some (JObj (handle_error (system_stats w [])))"
    by (simp_all add: s dict_get_def)
  show ?thesis
    apply (rule exI [of _ "handle_error (ios_stats w [])"])
    apply (rule exI [of _ "handle_error (android_stats w [])"])
    apply (rule exI [of _ "handle_error (system_stats w [])"])
    apply (intro conjI)
            apply (rule g(1))
           apply (rule g(2))
          apply (rule g(3))
         apply (rule ios_section_shape)
        apply (rule android_section_shape)
       apply (rule system_section_shape)
      apply (rule ios_section_cases)
     apply (rule android_section_cases)
    apply (rule system_section_cases)
    done
qed

theorem section_shapes_witness:
  "\<exists>stats. get_project_stats no_loadavg_host = Inr stats
    \<and> dict_get stats ''ios'' =
        Some (JObj [(''error'', JStr (exn_str (os_error ''FileNotFoundError''
                       ''[Errno 2] No such file or directory'' IOS_DIR)))])
    \<and> dict_get stats ''system'' =
        Some (JObj [(''claude_processes'', JInt 1),
                    (''error'', JStr ''Load averages are unobtainable'')])"
  using section_shapes [OF no_loadavg_snapshot]
  apply (elim exE conjE)
  subgoal premises p for ios android system
  proof -
    have i: "ios = [(''error'', JStr (exn_str (os_error ''FileNotFoundError''
                       ''[Errno 2] No such file or directory'' IOS_DIR)))]"
      using p(7) unfolding no_loadavg_calls sum.case by simp
    have y: "system = [(''claude_processes'', JInt 1),
                    (''error'', JStr ''Load averages are unobtainable'')]"
      using p(9)
      unfolding no_loadavg_calls sum.case completed_process.select_convs no_loadavg_count
      by simp
    show ?thesis
      apply (rule exI, rule conjI, rule no_loadavg_snapshot, rule conjI)
       apply (rule p(1) [unfolded i])
      apply (rule p(3) [unfolded y])
      done
  qed
  done

subsection \<open>What each section reads\<close>

lemma os_listdir_local:
  assumes "fs w' p = fs w p"
  shows "os_listdir w' p = os_listdir w p"
  unfolding os_listdir_def assms by (rule refl)

lemma tail_of_local:
  assumes "fs w' LOGS_DIR = fs w LOGS_DIR"
  shows "tail_of w' f = tail_of w f"
  unfolding tail_of_def open_readlines_def child_def assms by (rule refl)

lemma tail_logs_local:
  assumes "fs w' LOGS_DIR = fs w LOGS_DIR"
  shows "tail_logs w' names logs = tail_logs w names logs"
  by (induction names arbitrary: logs) (simp_all add: tail_of_local [OF assms])

lemma get_terminal_logs_local:
  assumes "fs w' LOGS_DIR = fs w LOGS_DIR"
  shows "get_terminal_logs w' = get_terminal_logs w"
  unfolding get_terminal_logs_def os_path_exists_def os_listdir_local [OF assms]
    tail_logs_local [OF assms] assms
  by (rule refl)

lemma get_last_modified_local:
  assumes "fs w' d = fs w d" and "fromtimestamp_isoformat w' = fromtimestamp_isoformat w"
  shows "get_last_modified w' d exts = get_last_modified w d exts"
  unfolding get_last_modified_def os_walk_def assms by (rule refl)

lemma get_git_info_local:
  assumes "fs w' d = fs w d" and "run w' = run w"
  shows "get_git_info w' d = get_git_info w d"
  unfolding get_git_info_def git_probe_def child_def assms by (rule refl)

lemma ios_stats_local:
  assumes "fs w' IOS_DIR = fs w IOS_DIR" and "run w' = run w"
    and "fromtimestamp_isoformat w' = fromtimestamp_isoformat w"
  shows "ios_stats w' d = ios_stats w d"
  unfolding ios_stats_def os_listdir_local [OF assms(1)]
    get_last_modified_local [OF assms(1,3)] get_git_info_local [OF assms(1,2)]
  by (rule refl)

lemma android_stats_local:
  assumes "fs w' ANDROID_DIR = fs w ANDROID_DIR" and "run w' = run w"
    and "fromtimestamp_isoformat w' = fromtimestamp_isoformat w"
  shows "android_stats w' d = android_stats w d"
  unfolding android_stats_def os_listdir_local [OF assms(1)]
    get_last_modified_local [OF assms(1,3)] get_git_info_local [OF assms(1,2)]
  by (rule refl)

lemma system_stats_local:
  assumes "run w' = run w" and "getloadavg w' = getloadavg w"
  shows "system_stats w' d = system_stats w d"
  unfolding system_stats_def assms by (rule refl)

lemma bare_logs: "get_terminal_logs bare_host = Inr []"
  by (simp add: get_terminal_logs_def os_path_exists_def bare_host_def)

lemma bare_system:
  "handle_error (system_stats bare_host []) =
     [(''claude_processes'', JInt 1), (''load_avg'', JArr [JFloat (3 / 2), JFloat (5 / 4), JFloat 1])]"
  by (simp add: system_stats_def handle_error_def bare_host_def Let_def
      newline_def lower_def lower_char_def startswith_def)

lemma busy_system:
  "handle_error (system_stats busy_host []) =
     [(''claude_processes'', JInt 1), (''load_avg'', JArr [JFloat 2, JFloat (5 / 4), JFloat 1])]"
  by (simp add: system_stats_def handle_error_def busy_host_def bare_host_def Let_def
      newline_def lower_def lower_char_def startswith_def)

text \<open>
  Claim C7, as stated, fails: two aggregations over the same files, the same answers of the
  version-control tool, the same process listing and the same log directory differ in the
  field \<^verbatim>\<open>system.load_avg\<close> when the load average of the host has moved in between.
\<close>

theorem load_average_changes_snapshot:
  "fs busy_host = fs bare_host
   \<and> run busy_host = run bare_host
   \<and> map_sum id without_timestamp (get_project_stats busy_host)
       \<noteq> map_sum id without_timestamp (get_project_stats bare_host)"
proof -
  have e: "fs busy_host = fs bare_host" "run busy_host = run bare_host"
    by (simp_all add: busy_host_def)
  have "get_terminal_logs busy_host = Inr []"
    using get_terminal_logs_local [of busy_host bare_host] e bare_logs by simp
  from snapshot_layout [OF this] snapshot_layout [OF bare_logs]
  have "map_sum id without_timestamp (get_project_stats busy_host)
       \<noteq> map_sum id without_timestamp (get_project_stats bare_host)"
    by (simp add: without_timestamp_def bare_system busy_system)
  with e show ?thesis by simp
qed

text \<open>
  Claim C7, amended. Two aggregations over hosts that agree on the files (the log directory
  among them), on the answers of the external tools, on the load average and on the
  rendering of local time produce snapshots that are identical in every field except
  \<^verbatim>\<open>timestamp\<close>; when listing the log directory raises, both raise the same exception.
\<close>

theorem snapshots_agree_up_to_timestamp:
  assumes "fs w' = fs w" and "run w' = run w" and "getloadavg w' = getloadavg w"
    and "fromtimestamp_isoformat w' = fromtimestamp_isoformat w"
  shows "map_sum id without_timestamp (get_project_stats w') =
         map_sum id without_timestamp (get_project_stats w)"
proof -
  have l: "get_terminal_logs w' = get_terminal_logs w"
    by (rule get_terminal_logs_local) (simp add: assms(1))
  have s: "ios_stats w' [] = ios_stats w []" "android_stats w' [] = android_stats w []"
    "system_stats w' [] = system_stats w []"
    by (rule ios_stats_local android_stats_local system_stats_local; simp add: assms)+
  show ?thesis
  proof (cases "get_terminal_logs w")
    case (Inl e)
    then have "get_project_stats w = Inl e" "get_project_stats w' = Inl e"
      using l by (simp_all add: get_project_stats_def)
    then show ?thesis by simp
  next
    case (Inr logs)
    then have "get_terminal_logs w' = Inr logs" using l by simp
    from snapshot_layout [OF this] snapshot_layout [OF Inr] show ?thesis
      unfolding s by (simp add: without_timestamp_def)
  qed
qed

theorem snapshots_agree_witness:
  "fs later_host = fs bare_host \<and> run later_host = run bare_host
   \<and> getloadavg later_host = getloadavg bare_host
   \<and> fromtimestamp_isoformat later_host = fromtimestamp_isoformat bare_host
   \<and> now_isoformat later_host \<noteq> now_isoformat bare_host
   \<and> map_sum id without_timestamp (get_project_stats later_host) =
       map_sum id without_timestamp (get_project_stats bare_host)"
proof -
  have e: "fs later_host = fs bare_host" "run later_host = run bare_host"
    "getloadavg later_host = getloadavg bare_host"
    "fromtimestamp_isoformat later_host = fromtimestamp_isoformat bare_host"
    by (simp_all add: later_host_def)
  have n: "now_isoformat later_host \<noteq> now_isoformat bare_host"
    by (simp add: later_host_def bare_host_def)
  from snapshots_agree_up_to_timestamp [OF e] e n show ?thesis by blast
qed

subsection \<open>Isolation of failures\<close>

text \<open>
  When the Log Tailer returns, a project directory that does not exist costs its own
  section only: that section is the one-key error object, and the other sections and the
  logs are what they are on any host with the same other directories, tools and load.
\<close>

lemma missing_ios_directory_is_isolated:
  assumes "get_terminal_logs w = Inr logs" and "fs w IOS_DIR = None"
  shows "get_project_stats w =
     Inr [(''timestamp'', JStr (now_isoformat w)),
          (''ios'', JObj [(''error'', JStr (exn_str (os_error ''FileNotFoundError''
                             ''[Errno 2] No such file or directory'' IOS_DIR)))]),
          (''android'', JObj (handle_error (android_stats w []))),
          (''system'', JObj (handle_error (system_stats w []))),
          (''terminal_logs'', JObj logs)]"
  using assms(2) unfolding snapshot_layout [OF assms(1)]
  by (simp add: ios_stats_def os_listdir_def handle_error_def)

lemma missing_android_directory_is_isolated:
  assumes "get_terminal_logs w = Inr logs" and "fs w ANDROID_DIR = None"
  shows "get_project_stats w =
     Inr [(''timestamp'', JStr (now_isoformat w)),
          (''ios'', JObj (handle_error (ios_stats w []))),
          (''android'', JObj [(''error'', JStr (exn_str (os_error ''FileNotFoundError''
                             ''[Errno 2] No such file or directory'' ANDROID_DIR)))]),
          (''system'', JObj (handle_error (system_stats w []))),
          (''terminal_logs'', JObj logs)]"
  using assms(2) unfolding snapshot_layout [OF assms(1)]
  by (simp add: android_stats_def os_listdir_def handle_error_def)

text \<open>
  Claim C1 at a log path that cannot be listed. The iOS directory does not exist and the
  log path is a regular file: \<^verbatim>\<open>os.path.exists\<close> holds, \<^verbatim>\<open>os.listdir\<close> raises outside any
  \<^verbatim>\<open>try\<close>, and the exception leaves \<^verbatim>\<open>get_project_stats\<close> and the handler of
  \<^verbatim>\<open>/api/stats\<close>. No snapshot is built: the failure of the logs field has cost every other
  field.
\<close>

theorem unlistable_log_path_aborts_aggregation:
  "os_listdir logs_blocked_host IOS_DIR =
     Inl (os_error ''FileNotFoundError'' ''[Errno 2] No such file or directory'' IOS_DIR)
   \<and> os_path_exists logs_blocked_host LOGS_DIR
   \<and> get_project_stats logs_blocked_host =
     Inl (os_error ''NotADirectoryError'' ''[Errno 20] Not a directory'' LOGS_DIR)
   \<and> do_GET logs_blocked_host ''/api/stats'' =
     Inl (os_error ''NotADirectoryError'' ''[Errno 20] Not a directory'' LOGS_DIR)"
  by (simp add: get_project_stats_def get_terminal_logs_def os_path_exists_def os_listdir_def
      do_GET_def serve_stats_def logs_blocked_host_def bare_host_def
      IOS_DIR_def LOGS_DIR_def)


end
